theory Spec2Isabelle
  imports Complex_Main
begin

section \<open>JavaScript numbers\<close>

text \<open>
  The TypeScript sources compute with the JavaScript \<open>number\<close> type. A finite number is
  modelled by the exact rational it denotes; the three non-finite values are kept, since
  the code can produce them (a remainder or a quotient by zero). Rounding of finite
  results and the sign of zero are not modelled: a zero divisor is read as \<open>+0\<close>.
\<close>

datatype jsnum = Num rat | NaN | PosInf | NegInf

fun js_neg :: "jsnum \<Rightarrow> jsnum" where
  "js_neg (Num a) = Num (- a)"
| "js_neg NaN = NaN"
| "js_neg PosInf = NegInf"
| "js_neg NegInf = PosInf"

fun js_add :: "jsnum \<Rightarrow> jsnum \<Rightarrow> jsnum" where
  "js_add (Num a) (Num b) = Num (a + b)"
| "js_add NaN _ = NaN"
| "js_add _ NaN = NaN"
| "js_add PosInf NegInf = NaN"
| "js_add NegInf PosInf = NaN"
| "js_add PosInf _ = PosInf"
| "js_add _ PosInf = PosInf"
| "js_add NegInf _ = NegInf"
| "js_add _ NegInf = NegInf"

definition js_sub :: "jsnum \<Rightarrow> jsnum \<Rightarrow> jsnum" where
  "js_sub a b = js_add a (js_neg b)"

fun js_mul :: "jsnum \<Rightarrow> jsnum \<Rightarrow> jsnum" where
  "js_mul (Num a) (Num b) = Num (a * b)"
| "js_mul NaN _ = NaN"
| "js_mul _ NaN = NaN"
| "js_mul PosInf (Num b) = (if b = 0 then NaN else if 0 < b then PosInf else NegInf)"
| "js_mul NegInf (Num b) = (if b = 0 then NaN else if 0 < b then NegInf else PosInf)"
| "js_mul (Num a) PosInf = (if a = 0 then NaN else if 0 < a then PosInf else NegInf)"
| "js_mul (Num a) NegInf = (if a = 0 then NaN else if 0 < a then NegInf else PosInf)"
| "js_mul PosInf PosInf = PosInf"
| "js_mul PosInf NegInf = NegInf"
| "js_mul NegInf PosInf = NegInf"
| "js_mul NegInf NegInf = PosInf"

fun js_div :: "jsnum \<Rightarrow> jsnum \<Rightarrow> jsnum" where
  "js_div (Num a) (Num b) =
     (if b = 0 then (if a = 0 then NaN else if 0 < a then PosInf else NegInf)
      else Num (a / b))"
| "js_div NaN _ = NaN"
| "js_div _ NaN = NaN"
| "js_div (Num a) _ = Num 0"
| "js_div PosInf (Num b) = (if 0 \<le> b then PosInf else NegInf)"
| "js_div NegInf (Num b) = (if 0 \<le> b then NegInf else PosInf)"
| "js_div _ _ = NaN"

definition js_trunc :: "rat \<Rightarrow> int" where
  "js_trunc q = (if 0 \<le> q then \<lfloor>q\<rfloor> else \<lceil>q\<rceil>)"

text \<open>
  The remainder operator \<open>%\<close>: the result takes the sign of the dividend, a zero divisor
  or a non-finite dividend gives \<open>NaN\<close>, an infinite divisor returns the dividend.
\<close>

fun js_mod :: "jsnum \<Rightarrow> jsnum \<Rightarrow> jsnum" where
  "js_mod (Num a) (Num b) =
     (if b = 0 then NaN else Num (a - b * of_int (js_trunc (a / b))))"
| "js_mod (Num a) PosInf = Num a"
| "js_mod (Num a) NegInf = Num a"
| "js_mod _ _ = NaN"

text \<open>The comparison \<open><\<close>: false as soon as one side is \<open>NaN\<close>.\<close>

fun js_lt :: "jsnum \<Rightarrow> jsnum \<Rightarrow> bool" where
  "js_lt (Num a) (Num b) = (a < b)"
| "js_lt NaN _ = False"
| "js_lt _ NaN = False"
| "js_lt NegInf NegInf = False"
| "js_lt NegInf _ = True"
| "js_lt (Num a) PosInf = True"
| "js_lt _ _ = False"

text \<open>Strict equality \<open>===\<close> on numbers: \<open>NaN\<close> is equal to nothing.\<close>

fun js_seq :: "jsnum \<Rightarrow> jsnum \<Rightarrow> bool" where
  "js_seq NaN _ = False"
| "js_seq _ NaN = False"
| "js_seq a b = (a = b)"

text \<open>\<open>Math.min\<close> of two arguments: \<open>NaN\<close> if either is.\<close>

fun js_min :: "jsnum \<Rightarrow> jsnum \<Rightarrow> jsnum" where
  "js_min (Num a) (Num b) = Num (min a b)"
| "js_min NaN _ = NaN"
| "js_min _ NaN = NaN"
| "js_min NegInf _ = NegInf"
| "js_min _ NegInf = NegInf"
| "js_min PosInf b = b"
| "js_min a PosInf = a"

text \<open>
  \<open>THREE.MathUtils.lerp(x, y, t)\<close> of the three.js library the sphere imports:
  \<open>(1 - t) * x + t * y\<close>.
\<close>

definition lerp :: "jsnum \<Rightarrow> jsnum \<Rightarrow> jsnum \<Rightarrow> jsnum" where
  "lerp x y t = js_add (js_mul (js_sub (Num 1) t) x) (js_mul t y)"

section \<open>The store (breathingStore)\<close>

datatype phase = Inhale | Hold | Exhale | Rest

record theme_colors =
  primary :: string
  secondary :: string
  background :: string

record BreathingState =
  inhaleTime :: jsnum
  holdTime :: jsnum
  exhaleTime :: jsnum
  isBreathing :: bool
  currentPhase :: phase
  elapsedTime :: jsnum
  theme :: theme_colors

definition initial_store :: BreathingState where
  "initial_store =
     \<lparr> inhaleTime = Num 4, holdTime = Num 4, exhaleTime = Num 6,
       isBreathing = False, currentPhase = Rest, elapsedTime = Num 0,
       theme = \<lparr> primary = ''#64b5f6'', secondary = ''#80cbc4'', background = ''#e0f7fa'' \<rparr> \<rparr>"

text \<open>
  Each action is zustand's \<open>set\<close> with a partial state: the named fields are replaced,
  the others kept. (\<open>setTheme\<close> also pushes the colour to the scrollbar style, an effect
  on the document that is outside the state.)
\<close>

definition setBreathingPattern :: "jsnum \<Rightarrow> jsnum \<Rightarrow> jsnum \<Rightarrow> BreathingState \<Rightarrow> BreathingState" where
  "setBreathingPattern inhale hold exhale s =
     s\<lparr> inhaleTime := inhale, holdTime := hold, exhaleTime := exhale, currentPhase := Inhale \<rparr>"

definition setTheme :: "theme_colors \<Rightarrow> BreathingState \<Rightarrow> BreathingState" where
  "setTheme th s = s\<lparr> theme := th \<rparr>"

definition startBreathing :: "BreathingState \<Rightarrow> BreathingState" where
  "startBreathing s = s\<lparr> isBreathing := True, currentPhase := Inhale \<rparr>"

definition stopBreathing :: "BreathingState \<Rightarrow> BreathingState" where
  "stopBreathing s = s\<lparr> isBreathing := False, currentPhase := Rest \<rparr>"

definition setCurrentPhase :: "phase \<Rightarrow> BreathingState \<Rightarrow> BreathingState" where
  "setCurrentPhase p s = s\<lparr> currentPhase := p \<rparr>"

definition setInhaleTime :: "jsnum \<Rightarrow> BreathingState \<Rightarrow> BreathingState" where
  "setInhaleTime t s = s\<lparr> inhaleTime := t \<rparr>"

definition setHoldTime :: "jsnum \<Rightarrow> BreathingState \<Rightarrow> BreathingState" where
  "setHoldTime t s = s\<lparr> holdTime := t \<rparr>"

definition setExhaleTime :: "jsnum \<Rightarrow> BreathingState \<Rightarrow> BreathingState" where
  "setExhaleTime t s = s\<lparr> exhaleTime := t \<rparr>"

definition setElapsedTime :: "jsnum \<Rightarrow> BreathingState \<Rightarrow> BreathingState" where
  "setElapsedTime t s = s\<lparr> elapsedTime := t \<rparr>"

section \<open>The sphere (BreathingSphere)\<close>

text \<open>
  The component's own mutable cells: the refs \<open>startTime\<close>, \<open>isResetting\<close>,
  \<open>resetStartTime\<close> and \<open>scale\<close>, the state \<open>isMobile\<close>, the rotation of the outer
  mesh, and whether both mesh refs are set (\<open>mounted\<close>). \<open>Date.now()\<close> is an integer
  count of milliseconds and is passed in as \<open>now\<close>.
\<close>

record sphere =
  mounted :: bool
  startTime :: int
  isResetting :: bool
  resetStartTime :: int
  isMobile :: bool
  scale :: jsnum
  rotationY :: jsnum

definition initial_sphere :: sphere where
  "initial_sphere =
     \<lparr> mounted = False, startTime = 0, isResetting = False, resetStartTime = 0,
       isMobile = False, scale = Num 1, rotationY = Num 0 \<rparr>"

text \<open>\<open>checkMobile\<close>: the viewport is mobile below the 768 pixel breakpoint.\<close>

definition checkMobile :: "int \<Rightarrow> sphere \<Rightarrow> sphere" where
  "checkMobile innerWidth sp = sp\<lparr> isMobile := (innerWidth < 768) \<rparr>"

text \<open>The effect that runs when \<open>isBreathing\<close> changes.\<close>

definition onBreathingChange :: "int \<Rightarrow> BreathingState \<Rightarrow> sphere \<Rightarrow> sphere" where
  "onBreathingChange now st sp =
     (if isBreathing st then sp\<lparr> startTime := now, isResetting := False \<rparr>
      else if mounted sp then sp\<lparr> isResetting := True, resetStartTime := now \<rparr>
      else sp)"

text \<open>Seconds between a recorded timestamp and \<open>now\<close>: \<open>(Date.now() - t0) / 1000\<close>.\<close>

definition seconds_since :: "int \<Rightarrow> int \<Rightarrow> jsnum" where
  "seconds_since t0 now = js_div (Num (of_int (now - t0))) (Num 1000)"

text \<open>
  The phase and the target scale for a time within the cycle (the \<open>if\<close> chain of the
  frame callback).
\<close>

definition breath_target :: "jsnum \<Rightarrow> jsnum \<Rightarrow> jsnum \<Rightarrow> jsnum \<Rightarrow> phase \<times> jsnum" where
  "breath_target inhale hold exhale time =
     (if js_lt time inhale then
        (Inhale, js_add (Num 1) (js_div time inhale))
      else if js_lt time (js_add inhale hold) then
        (Hold, Num 2)
      else
        (Exhale, js_sub (Num 2) (js_div (js_sub time (js_add inhale hold)) exhale)))"

definition maxScale :: "bool \<Rightarrow> jsnum" where
  "maxScale mobile = (if mobile then Num (3 / 2) else Num 2)"

definition cycle_time :: "BreathingState \<Rightarrow> sphere \<Rightarrow> int \<Rightarrow> jsnum" where
  "cycle_time st sp now =
     js_mod (seconds_since (startTime sp) now)
            (js_add (js_add (inhaleTime st) (holdTime st)) (exhaleTime st))"

text \<open>
  The frame callback, on the store and the sphere's cells. \<open>delta\<close> is the time since the
  previous frame, used for the rotation only.
\<close>

definition useFrame :: "int \<Rightarrow> jsnum \<Rightarrow> BreathingState \<times> sphere \<Rightarrow> BreathingState \<times> sphere" where
  "useFrame now delta = (\<lambda>(st, sp).
     if \<not> mounted sp then (st, sp)
     else if isResetting sp then
       (let resetElapsed = seconds_since (resetStartTime sp) now;
            resetDuration = Num (1 / 2);
            resetProgress = js_min (js_div resetElapsed resetDuration) (Num 1)
        in (st, sp\<lparr> scale := lerp (scale sp) (Num 1) resetProgress,
                    isResetting := (if js_seq resetProgress (Num 1) then False
                                    else isResetting sp) \<rparr>))
     else if \<not> isBreathing st then (st, sp)
     else
       (let time = cycle_time st sp now;
            (ph, targetScale) = breath_target (inhaleTime st) (holdTime st) (exhaleTime st) time
        in (setCurrentPhase ph st,
            sp\<lparr> scale := js_min targetScale (maxScale (isMobile sp)),
                rotationY := js_add (rotationY sp) (js_mul delta (Num (1 / 5))) \<rparr>)))"

fun run_frames :: "(int \<times> jsnum) list \<Rightarrow> BreathingState \<times> sphere \<Rightarrow> BreathingState \<times> sphere" where
  "run_frames [] c = c"
| "run_frames ((now, delta) # fs) c = run_frames fs (useFrame now delta c)"

text \<open>What a frame hands to the display: the phase label in the store and the scale.\<close>

definition emitted :: "BreathingState \<times> sphere \<Rightarrow> phase \<times> jsnum" where
  "emitted c = (currentPhase (fst c), scale (snd c))"

text \<open>A value lies between \<open>1\<close> and an earlier value, on the earlier value's side.\<close>

definition toward_one :: "rat \<Rightarrow> rat \<Rightarrow> bool" where
  "toward_one s s' = (min 1 s \<le> s' \<and> s' \<le> max 1 s)"

text \<open>
  The reset progress as a rational: \<open>Math.min(resetElapsed / 0.5, 1)\<close> for a reset that
  started at \<open>t0\<close> (milliseconds).
\<close>

definition reset_progress :: "int \<Rightarrow> int \<Rightarrow> rat" where
  "reset_progress t0 now = min (of_int (now - t0) / 1000 / (1 / 2)) 1"

text \<open>A configuration of the stopped store \<open>st\<close> whose sphere is attached and whose reset began at \<open>t0\<close>.\<close>

definition stopped_at :: "BreathingState \<Rightarrow> int \<Rightarrow> BreathingState \<times> sphere \<Rightarrow> bool" where
  "stopped_at st t0 c = (fst c = st \<and> mounted (snd c) \<and> resetStartTime (snd c) = t0)"

text \<open>The sphere once both meshes are attached.\<close>

definition mounted_sphere :: sphere where
  "mounted_sphere = initial_sphere\<lparr> mounted := True \<rparr>"

section \<open>The store's actions as a transition system\<close>

datatype store_action =
    SetBreathingPattern jsnum jsnum jsnum
  | SetTheme theme_colors
  | StartBreathing
  | StopBreathing
  | SetCurrentPhase phase
  | SetInhaleTime jsnum
  | SetHoldTime jsnum
  | SetExhaleTime jsnum
  | SetElapsedTime jsnum

fun dispatch :: "store_action \<Rightarrow> BreathingState \<Rightarrow> BreathingState" where
  "dispatch (SetBreathingPattern i h e) s = setBreathingPattern i h e s"
| "dispatch (SetTheme th) s = setTheme th s"
| "dispatch StartBreathing s = startBreathing s"
| "dispatch StopBreathing s = stopBreathing s"
| "dispatch (SetCurrentPhase p) s = setCurrentPhase p s"
| "dispatch (SetInhaleTime t) s = setInhaleTime t s"
| "dispatch (SetHoldTime t) s = setHoldTime t s"
| "dispatch (SetExhaleTime t) s = setExhaleTime t s"
| "dispatch (SetElapsedTime t) s = setElapsedTime t s"

fun run_actions :: "store_action list \<Rightarrow> BreathingState \<Rightarrow> BreathingState" where
  "run_actions [] s = s"
| "run_actions (a # as) s = run_actions as (dispatch a s)"

definition phase_inv :: "BreathingState \<Rightarrow> bool" where
  "phase_inv s = ((currentPhase s = Rest) = (\<not> isBreathing s))"

text \<open>
  The calls that keep the phase label in step with the running flag: a pattern change
  during a session, and a phase write that is \<open>Rest\<close> exactly when the session is stopped.
  All other actions qualify.
\<close>

fun in_step :: "store_action \<Rightarrow> BreathingState \<Rightarrow> bool" where
  "in_step (SetBreathingPattern i h e) s = isBreathing s"
| "in_step (SetCurrentPhase p) s = ((p = Rest) = (\<not> isBreathing s))"
| "in_step _ s = True"

fun all_in_step :: "store_action list \<Rightarrow> BreathingState \<Rightarrow> bool" where
  "all_in_step [] s = True"
| "all_in_step (a # as) s = (in_step a s \<and> all_in_step as (dispatch a s))"

section \<open>The custom pattern form (CustomBreathing)\<close>



section \<open>The timer display (BreathingTimer)\<close>

text \<open>
  The effect of the timer display: with the session stopped it clears the elapsed time;
  during a session the interval callback adds one second.
\<close>

definition timer_effect :: "BreathingState \<Rightarrow> BreathingState" where
  "timer_effect st = (if \<not> isBreathing st then setElapsedTime (Num 0) st else st)"

definition timer_tick :: "BreathingState \<Rightarrow> BreathingState" where
  "timer_tick st = setElapsedTime (js_add (elapsedTime st) (Num 1)) st"

record preset =
  name :: string
  inhale :: jsnum
  hold :: jsnum
  exhale :: jsnum

definition TIMER_PATTERNS :: "preset list" where
  "TIMER_PATTERNS =
     [ \<lparr> name = ''Calm'', inhale = Num 4, hold = Num 4, exhale = Num 6 \<rparr>,
       \<lparr> name = ''Focus'', inhale = Num 4, hold = Num 7, exhale = Num 8 \<rparr>,
       \<lparr> name = ''Balance'', inhale = Num 4, hold = Num 4, exhale = Num 4 \<rparr>,
       \<lparr> name = ''Deep'', inhale = Num 6, hold = Num 2, exhale = Num 7 \<rparr> ]"

text \<open>
  The template literal \<open>`${inhale}-${hold}-${exhale}`\<close>; the conversion of a number to
  its text is the platform's and is taken as the parameter \<open>numstr\<close>.
\<close>

definition triple_text :: "(jsnum \<Rightarrow> string) \<Rightarrow> jsnum \<Rightarrow> jsnum \<Rightarrow> jsnum \<Rightarrow> string" where
  "triple_text numstr i h e = numstr i @ ''-'' @ numstr h @ ''-'' @ numstr e"

definition patternText :: "(jsnum \<Rightarrow> string) \<Rightarrow> jsnum \<Rightarrow> jsnum \<Rightarrow> jsnum \<Rightarrow> string" where
  "patternText numstr inhaleT holdT exhaleT =
     (case find (\<lambda>p. js_seq (inhale p) inhaleT \<and> js_seq (hold p) holdT \<and> js_seq (exhale p) exhaleT)
                TIMER_PATTERNS of
        Some p \<Rightarrow> name p
      | None \<Rightarrow> triple_text numstr inhaleT holdT exhaleT)"

text \<open>What the timer shows: nothing unless a session runs.\<close>

definition BreathingTimer :: "(jsnum \<Rightarrow> string) \<Rightarrow> BreathingState \<Rightarrow> string option" where
  "BreathingTimer numstr st =
     (if \<not> isBreathing st then None
      else Some (patternText numstr (inhaleTime st) (holdTime st) (exhaleTime st)))"

section \<open>Sessions in local storage (StartButton, StatsPage)\<close>

record Session =
  session_id :: string
  session_pattern :: string
  session_duration :: jsnum
  session_date :: string
  session_inhaleTime :: jsnum
  session_holdTime :: jsnum
  session_exhaleTime :: jsnum

text \<open>
  The values that \<open>JSON.parse\<close> returns and \<open>JSON.stringify\<close> takes: \<open>null\<close>, booleans,
  numbers, strings, arrays, and objects as their entries in order.
\<close>

datatype json =
    JNull
  | JBool bool
  | JNum jsnum
  | JStr string
  | JArr "json list"
  | JObj "(string \<times> json) list"

text \<open>
  The text held under the key \<open>breathing-sessions\<close>, classified by what \<open>JSON.parse\<close> does
  with it: a text that is not JSON (the empty string among them) makes \<open>JSON.parse\<close> throw a
  \<open>SyntaxError\<close>; a JSON text is given by the value \<open>JSON.parse\<close> returns for it, which may be
  any JSON value, not only an array of sessions.
\<close>

datatype stored_text = Malformed string | Wellformed json

datatype js_error = SyntaxError | TypeError

fun JSON_parse :: "stored_text \<Rightarrow> js_error + json" where
  "JSON_parse (Malformed txt) = Inl SyntaxError"
| "JSON_parse (Wellformed v) = Inr v"

text \<open>
  What \<open>JSON.stringify\<close> writes for a value is what parses back from its text: a number
  that is not finite is written as \<open>null\<close>, everything else as it is.
\<close>

primrec written :: "json \<Rightarrow> json" where
  "written JNull = JNull"
| "written (JBool b) = JBool b"
| "written (JNum n) = (case n of Num r \<Rightarrow> JNum (Num r) | NaN \<Rightarrow> JNull | PosInf \<Rightarrow> JNull | NegInf \<Rightarrow> JNull)"
| "written (JStr s) = JStr s"
| "written (JArr xs) = JArr (map written xs)"
| "written (JObj kvs) = JObj (map (map_prod id written) kvs)"

definition JSON_stringify :: "json \<Rightarrow> stored_text" where
  "JSON_stringify v = Wellformed (written v)"

text \<open>Truthiness of a string: only the empty string is falsy.\<close>

fun truthy :: "stored_text \<Rightarrow> bool" where
  "truthy (Malformed txt) = (txt \<noteq> [])"
| "truthy (Wellformed v) = True"

text \<open>
  What a call of an array method (\<open>push\<close>, \<open>reduce\<close>) finds in a value that \<open>JSON.parse\<close>
  returned: the elements of an array. On any other value the call throws a \<open>TypeError\<close>:
  \<open>null\<close> has no properties, and no other JSON value holds a function under that name.
\<close>

fun array_receiver :: "json \<Rightarrow> js_error + json list" where
  "array_receiver (JArr xs) = Inr xs"
| "array_receiver v = Inl TypeError"

text \<open>
  The effect of the statistics page on mount: \<open>getItem\<close> gives \<open>None\<close> for a missing key.
  The result is the page's \<open>sessions\<close> state (initially the empty array), set to whatever
  \<open>JSON.parse\<close> returned, or the exception that leaves the effect.
\<close>

definition StatsPage_load :: "stored_text option \<Rightarrow> json \<Rightarrow> js_error + json" where
  "StatsPage_load storedSessions sessions =
     (case storedSessions of
        None \<Rightarrow> Inr sessions
      | Some txt \<Rightarrow>
          if truthy txt then
            (case JSON_parse txt of Inl err \<Rightarrow> Inl err | Inr v \<Rightarrow> Inr v)
          else Inr sessions)"

text \<open>
  The first statements of the page's render, \<open>sessions.length\<close> and \<open>sessions.reduce(...)\<close>,
  as far as their receiver: on a state that is not an array they throw a \<open>TypeError\<close>; on an
  array they go over its elements (what is computed from the elements is not modelled).
\<close>

definition StatsPage_totals :: "json \<Rightarrow> js_error + json list" where
  "StatsPage_totals sessions = array_receiver sessions"

text \<open>The object literal \<open>newSession\<close> as a value, its entries in the order written.\<close>

definition session_value :: "Session \<Rightarrow> json" where
  "session_value s =
     JObj [ (''id'', JStr (session_id s)),
            (''pattern'', JStr (session_pattern s)),
            (''duration'', JNum (session_duration s)),
            (''date'', JStr (session_date s)),
            (''inhaleTime'', JNum (session_inhaleTime s)),
            (''holdTime'', JNum (session_holdTime s)),
            (''exhaleTime'', JNum (session_exhaleTime s)) ]"

text \<open>
  \<open>handleStop\<close> of the start button, on the stored text and the store. The identifier and
  the date of the new session come from the platform and are parameters; \<open>setItem\<close> is
  taken to succeed.
\<close>

definition handleStop ::
  "(jsnum \<Rightarrow> string) \<Rightarrow> string \<Rightarrow> string \<Rightarrow> stored_text option \<times> BreathingState
     \<Rightarrow> js_error + (stored_text option \<times> BreathingState)" where
  "handleStop numstr uuid isoDate = (\<lambda>(storage, st).
     let newSession =
           \<lparr> session_id = uuid,
             session_pattern = triple_text numstr (inhaleTime st) (holdTime st) (exhaleTime st),
             session_duration = elapsedTime st,
             session_date = isoDate,
             session_inhaleTime = inhaleTime st,
             session_holdTime = holdTime st,
             session_exhaleTime = exhaleTime st \<rparr>;
         parsed = (case storage of
                     None \<Rightarrow> Inr (JArr [])
                   | Some txt \<Rightarrow> if truthy txt then JSON_parse txt else Inr (JArr []))
     in case parsed of
          Inl err \<Rightarrow> Inl err
        | Inr sessions \<Rightarrow>
            (case array_receiver sessions of
               Inl err \<Rightarrow> Inl err
             | Inr elems \<Rightarrow>
                 Inr (Some (JSON_stringify (JArr (elems @ [session_value newSession]))),
                      stopBreathing st)))"

text \<open>The session that \<open>handleStop\<close> records for a store state.\<close>

definition new_session :: "(jsnum \<Rightarrow> string) \<Rightarrow> string \<Rightarrow> string \<Rightarrow> BreathingState \<Rightarrow> Session" where
  "new_session numstr uuid isoDate st =
     \<lparr> session_id = uuid,
       session_pattern = triple_text numstr (inhaleTime st) (holdTime st) (exhaleTime st),
       session_duration = elapsedTime st,
       session_date = isoDate,
       session_inhaleTime = inhaleTime st,
       session_holdTime = holdTime st,
       session_exhaleTime = exhaleTime st \<rparr>"

record described_preset = preset +
  description :: string

definition STATS_PATTERNS :: "described_preset list" where
  "STATS_PATTERNS =
     [ \<lparr> name = ''Calm'', inhale = Num 4, hold = Num 4, exhale = Num 6,
         description = ''Perfect for relaxation and stress relief'' \<rparr>,
       \<lparr> name = ''Focus'', inhale = Num 4, hold = Num 7, exhale = Num 8,
         description = ''Enhances concentration and mental clarity'' \<rparr>,
       \<lparr> name = ''Balance'', inhale = Num 4, hold = Num 4, exhale = Num 4,
         description = ''Promotes emotional balance and stability'' \<rparr>,
       \<lparr> name = ''Deep'', inhale = Num 6, hold = Num 2, exhale = Num 7,
         description = ''Deep breathing for energy and vitality'' \<rparr> ]"

text \<open>
  \<open>getPatternInfo\<close> returns the preset found, or an object with the two fields \<open>name\<close> and
  \<open>description\<close>; its callers read \<open>name\<close> only. The result is the pair of these two.
\<close>

definition getPatternInfo :: "(jsnum \<Rightarrow> string) \<Rightarrow> jsnum \<Rightarrow> jsnum \<Rightarrow> jsnum \<Rightarrow> string \<times> string" where
  "getPatternInfo numstr inhaleT holdT exhaleT =
     (case find (\<lambda>p. js_seq (inhale p) inhaleT \<and> js_seq (hold p) holdT \<and> js_seq (exhale p) exhaleT)
                STATS_PATTERNS of
        Some p \<Rightarrow> (name p, description p)
      | None \<Rightarrow> (triple_text numstr inhaleT holdT exhaleT, ''Custom breathing pattern''))"

definition info_name :: "string \<times> string \<Rightarrow> string" where
  "info_name info = fst info"

section \<open>Arithmetic of the frame callback\<close>

lemma js_trunc_nonneg: "0 \<le> q \<Longrightarrow> js_trunc q = \<lfloor>q\<rfloor>"
  by (simp add: js_trunc_def)

lemma floor_rat_numeral_div: "\<lfloor>numeral a / numeral b :: rat\<rfloor> = numeral a div numeral b"
  using floor_divide_of_int_eq[of "numeral a" "numeral b", where ?'a = rat] by simp

lemma floor_rat_one_div: "\<lfloor>1 / numeral b :: rat\<rfloor> = 1 div numeral b"
  using floor_divide_of_int_eq[of 1 "numeral b", where ?'a = rat] by simp

lemmas frame_eval =
  useFrame_def Let_def cycle_time_def seconds_since_def breath_target_def maxScale_def
  js_sub_def js_trunc_def floor_rat_numeral_div floor_rat_one_div setCurrentPhase_def

lemma rat_rem_range:
  fixes a b :: rat
  assumes "0 \<le> a" "0 < b"
  shows "0 \<le> a - b * of_int \<lfloor>a / b\<rfloor>" and "a - b * of_int \<lfloor>a / b\<rfloor> < b"
  using floor_divide_lower[OF assms(2), of a] floor_divide_upper[OF assms(2), of a]
  by (simp_all add: algebra_simps)

lemma js_mod_Num:
  "0 \<le> a \<Longrightarrow> 0 < b \<Longrightarrow> js_mod (Num a) (Num b) = Num (a - b * of_int \<lfloor>a / b\<rfloor>)"
  by (simp add: js_trunc_nonneg)

lemma seconds_since_Num: "seconds_since t0 now = Num (of_int (now - t0) / 1000)"
  by (simp add: seconds_since_def)

lemma cycle_time_range:
  assumes "0 < i" "0 \<le> h" "0 < e"
    and "inhaleTime st = Num i" "holdTime st = Num h" "exhaleTime st = Num e"
    and "startTime sp \<le> now"
  shows "\<exists>t. cycle_time st sp now = Num t \<and> 0 \<le> t \<and> t < i + h + e"
proof -
  let ?a = "of_int (now - startTime sp) / 1000 :: rat"
  let ?b = "i + h + e"
  have a: "0 \<le> ?a" using assms(7) by simp
  have b: "0 < ?b" using assms(1-3) by simp
  have "cycle_time st sp now = Num (?a - ?b * of_int \<lfloor>?a / ?b\<rfloor>)"
    unfolding cycle_time_def seconds_since_Num assms(4-6) js_add.simps
    by (rule js_mod_Num[OF a b])
  with rat_rem_range[OF a b] show ?thesis by blast
qed

lemma breath_target_phase:
  "fst (breath_target (Num i) (Num h) (Num e) (Num t)) =
     (if t < i then Inhale else if t < i + h then Hold else Exhale)"
  by (simp add: breath_target_def)

lemma breath_target_Num:
  assumes "0 < i" "0 < e"
  shows "breath_target (Num i) (Num h) (Num e) (Num t) =
     (if t < i then (Inhale, Num (1 + t / i))
      else if t < i + h then (Hold, Num 2)
      else (Exhale, Num (2 - (t - (i + h)) / e)))"
  using assms by (simp add: breath_target_def js_sub_def)


lemma useFrame_unmounted: "\<not> mounted sp \<Longrightarrow> useFrame now delta (st, sp) = (st, sp)"
  by (simp add: useFrame_def)

lemma useFrame_idle:
  "mounted sp \<Longrightarrow> \<not> isResetting sp \<Longrightarrow> \<not> isBreathing st \<Longrightarrow> useFrame now delta (st, sp) = (st, sp)"
  by (simp add: useFrame_def)

lemma useFrame_running:
  assumes "mounted sp" "\<not> isResetting sp" "isBreathing st"
  shows "useFrame now delta (st, sp) =
     (setCurrentPhase
        (fst (breath_target (inhaleTime st) (holdTime st) (exhaleTime st) (cycle_time st sp now))) st,
      sp\<lparr> scale := js_min
                      (snd (breath_target (inhaleTime st) (holdTime st) (exhaleTime st)
                              (cycle_time st sp now)))
                      (maxScale (isMobile sp)),
          rotationY := js_add (rotationY sp) (js_mul delta (Num (1 / 5))) \<rparr>)"
  using assms by (simp add: useFrame_def Let_def split_beta)


lemma target_range:
  fixes i h e t :: rat
  assumes "0 < i" "0 \<le> h" "0 < e" "0 \<le> t" "t < i + h + e"
  shows "\<exists>g. snd (breath_target (Num i) (Num h) (Num e) (Num t)) = Num g \<and> 1 \<le> g \<and> g \<le> 2"
proof -
  consider (inh) "t < i" | (hld) "i \<le> t" "t < i + h" | (exh) "i + h \<le> t"
    by linarith
  then show ?thesis
  proof cases
    case inh
    have "0 \<le> t / i" "t / i \<le> 1" using assms(1,4) inh by simp_all
    then show ?thesis using inh by (simp add: breath_target_Num[OF assms(1,3)])
  next
    case hld
    then show ?thesis by (simp add: breath_target_Num[OF assms(1,3)])
  next
    case exh
    have "0 \<le> (t - (i + h)) / e" "(t - (i + h)) / e \<le> 1"
      using assms(3,5) exh by simp_all
    then show ?thesis using exh assms(2) by (simp add: breath_target_Num[OF assms(1,3)])
  qed
qed

section \<open>The running session\<close>

text \<open>
  C1. For a pattern with inhale and exhale positive and hold non-negative, and a time \<open>t\<close>
  within the cycle, the phase is inhale exactly when \<open>t < inhale\<close>, hold exactly when
  \<open>inhale \<le> t < inhale + hold\<close>, and exhale exactly from \<open>inhale + hold\<close> on; it is never
  rest. In a running session whose clock has not gone back, the frame callback's time within
  the cycle is such a \<open>t\<close>, and the phase it writes to the store is the phase of that \<open>t\<close>.
\<close>

theorem phase_partition:
  assumes "0 < i" "0 \<le> h" "0 < e"
    and "inhaleTime st = Num i" "holdTime st = Num h" "exhaleTime st = Num e"
    and "mounted sp" "\<not> isResetting sp" "isBreathing st" "startTime sp \<le> now"
  shows "(\<forall>t. 0 \<le> t \<and> t < i + h + e \<longrightarrow>
           (fst (breath_target (Num i) (Num h) (Num e) (Num t)) = Inhale \<longleftrightarrow> t < i) \<and>
           (fst (breath_target (Num i) (Num h) (Num e) (Num t)) = Hold \<longleftrightarrow> i \<le> t \<and> t < i + h) \<and>
           (fst (breath_target (Num i) (Num h) (Num e) (Num t)) = Exhale \<longleftrightarrow> i + h \<le> t) \<and>
           fst (breath_target (Num i) (Num h) (Num e) (Num t)) \<noteq> Rest)
       \<and> (\<exists>t. cycle_time st sp now = Num t \<and> 0 \<le> t \<and> t < i + h + e \<and>
             currentPhase (fst (useFrame now delta (st, sp)))
               = fst (breath_target (Num i) (Num h) (Num e) (Num t)))"
proof
  show "\<forall>t. 0 \<le> t \<and> t < i + h + e \<longrightarrow>
           (fst (breath_target (Num i) (Num h) (Num e) (Num t)) = Inhale \<longleftrightarrow> t < i) \<and>
           (fst (breath_target (Num i) (Num h) (Num e) (Num t)) = Hold \<longleftrightarrow> i \<le> t \<and> t < i + h) \<and>
           (fst (breath_target (Num i) (Num h) (Num e) (Num t)) = Exhale \<longleftrightarrow> i + h \<le> t) \<and>
           fst (breath_target (Num i) (Num h) (Num e) (Num t)) \<noteq> Rest"
    using assms(2) by (auto simp add: breath_target_phase)
next
  from cycle_time_range[OF assms(1-6) assms(10)]
  obtain t where t: "cycle_time st sp now = Num t" "0 \<le> t" "t < i + h + e" by blast
  have "currentPhase (fst (useFrame now delta (st, sp)))
          = fst (breath_target (Num i) (Num h) (Num e) (Num t))"
    by (simp add: useFrame_running[OF assms(7-9)] assms(4-6) t(1) setCurrentPhase_def)
  with t show "\<exists>t. cycle_time st sp now = Num t \<and> 0 \<le> t \<and> t < i + h + e \<and>
             currentPhase (fst (useFrame now delta (st, sp)))
               = fst (breath_target (Num i) (Num h) (Num e) (Num t))" by blast
qed

theorem phase_partition_witness:
  "currentPhase (fst (useFrame 6000 (Num 0)
      (startBreathing initial_store,
       onBreathingChange 1000 (startBreathing initial_store) mounted_sphere))) = Hold"
proof -
  let ?st = "startBreathing initial_store"
  let ?sp = "onBreathingChange 1000 ?st mounted_sphere"
  have pat: "inhaleTime ?st = Num 4" "holdTime ?st = Num 4" "exhaleTime ?st = Num 6"
    by (simp_all add: startBreathing_def initial_store_def)
  have run: "mounted ?sp" "\<not> isResetting ?sp" "isBreathing ?st" "startTime ?sp \<le> 6000"
    by (simp_all add: startBreathing_def onBreathingChange_def mounted_sphere_def
        initial_sphere_def)
  have ct: "cycle_time ?st ?sp 6000 = Num 5"
    by (simp add: cycle_time_def seconds_since_def onBreathingChange_def
        startBreathing_def initial_store_def js_trunc_def floor_rat_numeral_div)
  have v: "(0::rat) < 4" "(0::rat) \<le> 4" "(0::rat) < 6" by simp_all
  from phase_partition[OF v pat run, of "Num 0"]
  obtain t where all: "\<forall>t. 0 \<le> t \<and> t < 4 + 4 + 6 \<longrightarrow>
           (fst (breath_target (Num 4) (Num 4) (Num 6) (Num t)) = Hold \<longleftrightarrow> 4 \<le> t \<and> t < 4 + 4)"
    and t: "cycle_time ?st ?sp 6000 = Num t"
      "currentPhase (fst (useFrame 6000 (Num 0) (?st, ?sp)))
         = fst (breath_target (Num 4) (Num 4) (Num 6) (Num t))"
    by blast
  from t(1) ct have "t = 5" by simp
  moreover from all have "fst (breath_target (Num 4) (Num 4) (Num 6) (Num 5)) = Hold"
    by (simp del: breath_target_phase)
  ultimately show ?thesis using t(2) by simp
qed

text \<open>
  C2. Pattern 4-0-6 on a desktop viewport, session started at time \<open>T\<close>: the frame at \<open>T\<close>
  gives inhale and scale 1, at \<open>T + 2 s\<close> scale 1.5, at \<open>T + 4 s\<close> exhale and scale 2, at
  \<open>T + 7 s\<close> scale 1.5, and at \<open>T + 10 s\<close> the cycle has wrapped: inhale and scale 1.
\<close>

theorem scenario_4_0_6:
  "emitted (run_frames [(T, d0)]
      (startBreathing (setBreathingPattern (Num 4) (Num 0) (Num 6) initial_store),
       onBreathingChange T
         (startBreathing (setBreathingPattern (Num 4) (Num 0) (Num 6) initial_store))
         (checkMobile 1024 mounted_sphere)))
     = (Inhale, Num 1)
   \<and> emitted (run_frames [(T, d0), (T + 2000, d1)]
      (startBreathing (setBreathingPattern (Num 4) (Num 0) (Num 6) initial_store),
       onBreathingChange T
         (startBreathing (setBreathingPattern (Num 4) (Num 0) (Num 6) initial_store))
         (checkMobile 1024 mounted_sphere)))
     = (Inhale, Num (3 / 2))
   \<and> emitted (run_frames [(T, d0), (T + 2000, d1), (T + 4000, d2)]
      (startBreathing (setBreathingPattern (Num 4) (Num 0) (Num 6) initial_store),
       onBreathingChange T
         (startBreathing (setBreathingPattern (Num 4) (Num 0) (Num 6) initial_store))
         (checkMobile 1024 mounted_sphere)))
     = (Exhale, Num 2)
   \<and> emitted (run_frames [(T, d0), (T + 2000, d1), (T + 4000, d2), (T + 7000, d3)]
      (startBreathing (setBreathingPattern (Num 4) (Num 0) (Num 6) initial_store),
       onBreathingChange T
         (startBreathing (setBreathingPattern (Num 4) (Num 0) (Num 6) initial_store))
         (checkMobile 1024 mounted_sphere)))
     = (Exhale, Num (3 / 2))
   \<and> emitted (run_frames [(T, d0), (T + 2000, d1), (T + 4000, d2), (T + 7000, d3), (T + 10000, d4)]
      (startBreathing (setBreathingPattern (Num 4) (Num 0) (Num 6) initial_store),
       onBreathingChange T
         (startBreathing (setBreathingPattern (Num 4) (Num 0) (Num 6) initial_store))
         (checkMobile 1024 mounted_sphere)))
     = (Inhale, Num 1)"
  by (simp add: emitted_def frame_eval startBreathing_def setBreathingPattern_def
      initial_store_def onBreathingChange_def checkMobile_def mounted_sphere_def
      initial_sphere_def)

text \<open>
  C6. In a running session (valid pattern, clock not gone back) the target scale before the
  cap is a number in \<open>[1, 2]\<close>, and the scale the frame stores is the smaller of the target
  and the cap: at least 1, at most 1.5 on a mobile viewport and at most 2 otherwise. With
  the pattern 4-4-6 and a cycle time in the hold phase the target is 2, and the stored scale
  is 1.5 on mobile and 2 on desktop.
\<close>

theorem scale_bounds:
  assumes "0 < i" "0 \<le> h" "0 < e"
    and "inhaleTime st = Num i" "holdTime st = Num h" "exhaleTime st = Num e"
    and "mounted sp" "\<not> isResetting sp" "isBreathing st" "startTime sp \<le> now"
  shows "\<exists>t g s. cycle_time st sp now = Num t
           \<and> snd (breath_target (inhaleTime st) (holdTime st) (exhaleTime st)
                    (cycle_time st sp now)) = Num g
           \<and> 1 \<le> g \<and> g \<le> 2
           \<and> scale (snd (useFrame now delta (st, sp))) = Num s
           \<and> s = min g (if isMobile sp then 3 / 2 else 2)
           \<and> 1 \<le> s \<and> s \<le> (if isMobile sp then 3 / 2 else 2)
           \<and> (i = 4 \<and> h = 4 \<and> e = 6 \<and> 4 \<le> t \<and> t < 8 \<longrightarrow>
                g = 2 \<and> s = (if isMobile sp then 3 / 2 else 2))"
proof -
  from cycle_time_range[OF assms(1-6) assms(10)]
  obtain t where t: "cycle_time st sp now = Num t" "0 \<le> t" "t < i + h + e" by blast
  from target_range[OF assms(1-3) t(2,3)]
  obtain g where g: "snd (breath_target (Num i) (Num h) (Num e) (Num t)) = Num g"
      "1 \<le> g" "g \<le> 2" by blast
  define s where "s = min g (if isMobile sp then 3 / 2 else 2)"
  have sc: "scale (snd (useFrame now delta (st, sp))) = Num s"
    by (simp add: useFrame_running[OF assms(7-9)] assms(4-6) t(1) g(1) maxScale_def s_def)
  have bt: "snd (breath_target (inhaleTime st) (holdTime st) (exhaleTime st)
                    (cycle_time st sp now)) = Num g"
    by (simp add: assms(4-6) t(1) g(1))
  have lo: "1 \<le> s" and hi: "s \<le> (if isMobile sp then 3 / 2 else 2)"
    using g(2) by (simp_all add: s_def)
  have hold_446: "g = 2 \<and> s = (if isMobile sp then 3 / 2 else 2)"
    if "i = 4 \<and> h = 4 \<and> e = 6 \<and> 4 \<le> t \<and> t < 8"
  proof -
    have "snd (breath_target (Num 4) (Num 4) (Num 6) (Num t)) = Num 2"
      using that by (simp add: breath_target_Num)
    with g(1) that have "g = 2" by simp
    then show ?thesis by (simp add: s_def)
  qed
  from t(1) bt g(2,3) sc lo hi hold_446 show ?thesis
    unfolding s_def by blast
qed

theorem scale_bounds_witness:
  "scale (snd (useFrame 6000 (Num 0)
      (startBreathing initial_store,
       onBreathingChange 1000 (startBreathing initial_store)
         (checkMobile 390 mounted_sphere)))) = Num (3 / 2)"
proof -
  let ?st = "startBreathing initial_store"
  let ?sp = "onBreathingChange 1000 ?st (checkMobile 390 mounted_sphere)"
  have pat: "inhaleTime ?st = Num 4" "holdTime ?st = Num 4" "exhaleTime ?st = Num 6"
    by (simp_all add: startBreathing_def initial_store_def)
  have run: "mounted ?sp" "\<not> isResetting ?sp" "isBreathing ?st" "startTime ?sp \<le> 6000"
    by (simp_all add: startBreathing_def onBreathingChange_def checkMobile_def
        mounted_sphere_def initial_sphere_def)
  have mob: "isMobile ?sp"
    by (simp add: startBreathing_def onBreathingChange_def checkMobile_def)
  have ct: "cycle_time ?st ?sp 6000 = Num 5"
    by (simp add: cycle_time_def seconds_since_def onBreathingChange_def
        startBreathing_def initial_store_def js_trunc_def floor_rat_numeral_div)
  have v: "(0::rat) < 4" "(0::rat) \<le> 4" "(0::rat) < 6" by simp_all
  from scale_bounds[OF v pat run, of "Num 0"]
  obtain t g s where t: "cycle_time ?st ?sp 6000 = Num t"
    and sc: "scale (snd (useFrame 6000 (Num 0) (?st, ?sp))) = Num s"
    and hold: "(4::rat) = 4 \<and> (4::rat) = 4 \<and> (6::rat) = 6 \<and> 4 \<le> t \<and> t < 8 \<longrightarrow>
                g = 2 \<and> s = (if isMobile ?sp then 3 / 2 else 2)"
    by blast
  from t ct have "t = 5" by simp
  with hold mob have "s = 3 / 2" by simp
  with sc show ?thesis by simp
qed

text \<open>
  C7. In the running branch the phase and scale a frame yields are determined by the
  pattern, the session's start timestamp and \<open>now\<close> (with the viewport class of the sphere,
  which sets the cap of the scale and does not enter the phase): they do not depend on the
  previous scale, the rotation, the reset timestamp, the phase label, the elapsed-seconds
  counter, the theme or \<open>delta\<close>. Evaluating the frame again at the same \<open>now\<close>, on the state
  the first evaluation left, gives the same phase and scale.
\<close>

theorem frame_output_pure:
  assumes "mounted sp" "\<not> isResetting sp" "isBreathing st"
  shows "emitted (useFrame now d1
            (st\<lparr> currentPhase := p1, elapsedTime := n1, theme := th1 \<rparr>,
             sp\<lparr> scale := s1, rotationY := r1, resetStartTime := t1 \<rparr>))
       = emitted (useFrame now d2
            (st\<lparr> currentPhase := p2, elapsedTime := n2, theme := th2 \<rparr>,
             sp\<lparr> scale := s2, rotationY := r2, resetStartTime := t2 \<rparr>))
     \<and> emitted (useFrame now d2 (useFrame now d1 (st, sp))) = emitted (useFrame now d1 (st, sp))
     \<and> fst (emitted (useFrame now d1 (st, sp\<lparr> isMobile := m \<rparr>)))
       = fst (emitted (useFrame now d1 (st, sp)))
     \<and> emitted (useFrame now d1 (st, sp))
       = (fst (breath_target (inhaleTime st) (holdTime st) (exhaleTime st)
                 (js_mod (seconds_since (startTime sp) now)
                    (js_add (js_add (inhaleTime st) (holdTime st)) (exhaleTime st)))),
          js_min (snd (breath_target (inhaleTime st) (holdTime st) (exhaleTime st)
                 (js_mod (seconds_since (startTime sp) now)
                    (js_add (js_add (inhaleTime st) (holdTime st)) (exhaleTime st)))))
            (maxScale (isMobile sp)))"
  using assms
  by (simp add: emitted_def useFrame_def Let_def split_beta cycle_time_def setCurrentPhase_def)

theorem frame_output_pure_witness:
  "emitted (useFrame 6000 (Num 0)
      (startBreathing initial_store\<lparr> currentPhase := Exhale, elapsedTime := Num 3,
           theme := \<lparr> primary = ''#6B7280'', secondary = ''#9CA3AF'', background = ''#F3F4F6'' \<rparr> \<rparr>,
       onBreathingChange 1000 (startBreathing initial_store) mounted_sphere
         \<lparr> scale := Num (17 / 10), rotationY := Num 9, resetStartTime := 250 \<rparr>))
   = emitted (useFrame 6000 (Num (1 / 60))
      (startBreathing initial_store\<lparr> currentPhase := Rest, elapsedTime := Num 0,
           theme := \<lparr> primary = ''#64b5f6'', secondary = ''#80cbc4'', background = ''#e0f7fa'' \<rparr> \<rparr>,
       onBreathingChange 1000 (startBreathing initial_store) mounted_sphere
         \<lparr> scale := NaN, rotationY := Num 0, resetStartTime := 0 \<rparr>))"
proof -
  let ?st = "startBreathing initial_store"
  let ?sp = "onBreathingChange 1000 ?st mounted_sphere"
  have run: "mounted ?sp" "\<not> isResetting ?sp" "isBreathing ?st"
    by (simp_all add: startBreathing_def onBreathingChange_def mounted_sphere_def
        initial_sphere_def)
  from frame_output_pure[OF run, THEN conjunct1] show ?thesis .
qed

section \<open>The reset after a stop\<close>

lemma js_seq_Num: "js_seq (Num a) (Num b) = (a = b)"
  by simp

lemma lerp_Num: "lerp (Num s) (Num 1) (Num p) = Num ((1 - p) * s + p)"
  by (simp add: lerp_def js_sub_def)

lemma useFrame_resetting:
  assumes "mounted sp" "isResetting sp" "scale sp = Num s"
  shows "useFrame now delta (st, sp) =
     (st, sp\<lparr> scale := Num ((1 - reset_progress (resetStartTime sp) now) * s
                            + reset_progress (resetStartTime sp) now),
              isResetting := (reset_progress (resetStartTime sp) now \<noteq> 1) \<rparr>)"
  using assms
  by (simp add: useFrame_def Let_def seconds_since_Num reset_progress_def lerp_Num)

lemma reset_progress_range:
  "t0 \<le> now \<Longrightarrow> 0 \<le> reset_progress t0 now \<and> reset_progress t0 now \<le> 1"
  by (simp add: reset_progress_def)

lemma reset_progress_done: "reset_progress t0 now = 1 \<longleftrightarrow> t0 + 500 \<le> now"
  by (auto simp add: reset_progress_def min_def)

lemma lerp_toward_one:
  fixes s p :: rat
  assumes "0 \<le> p" "p \<le> 1"
  shows "toward_one s ((1 - p) * s + p)"
proof -
  have eq: "(1 - p) * s + p = s + p * (1 - s)" by (simp add: algebra_simps)
  show ?thesis
  proof (cases "1 \<le> s")
    case True
    have a: "p * (1 - s) \<le> 0" using assms(1) True by (simp add: mult_nonneg_nonpos)
    have "1 * (1 - s) \<le> p * (1 - s)"
      using assms(2) True by (intro mult_right_mono_neg) simp_all
    then have b: "1 - s \<le> p * (1 - s)" by (simp only: mult_1)
    have "min 1 s = 1" "max 1 s = s" using True by simp_all
    then show ?thesis unfolding toward_one_def eq using a b by linarith
  next
    case False
    have a: "0 \<le> p * (1 - s)" using assms(1) False by simp
    have "p * (1 - s) \<le> 1 * (1 - s)"
      using assms(2) False by (intro mult_right_mono) simp_all
    then have b: "p * (1 - s) \<le> 1 - s" by (simp only: mult_1)
    have "min 1 s = s" "max 1 s = 1" using False by simp_all
    then show ?thesis unfolding toward_one_def eq using a b by linarith
  qed
qed

lemma toward_one_refl: "toward_one s s"
  by (simp add: toward_one_def)

lemma toward_one_trans: "toward_one a b \<Longrightarrow> toward_one b c \<Longrightarrow> toward_one a c"
  by (auto simp add: toward_one_def min_def max_def split: if_splits)

lemma stopped_step:
  assumes "stopped_at st t0 c" "\<not> isBreathing st" "scale (snd c) = Num s" "t0 \<le> now"
  shows "stopped_at st t0 (useFrame now delta c)"
    and "\<exists>s'. scale (snd (useFrame now delta c)) = Num s' \<and> toward_one s s'"
    and "\<not> isResetting (snd c) \<Longrightarrow> \<not> isResetting (snd (useFrame now delta c))"
proof -
  obtain sp where c: "c = (st, sp)" using assms(1) by (cases c) (simp add: stopped_at_def)
  have m: "mounted sp" and r: "resetStartTime sp = t0" and sc: "scale sp = Num s"
    using assms(1,3) by (simp_all add: c stopped_at_def)
  have p: "0 \<le> reset_progress t0 now" "reset_progress t0 now \<le> 1"
    using reset_progress_range[OF assms(4)] by simp_all
  show "stopped_at st t0 (useFrame now delta c)"
  proof (cases "isResetting sp")
    case True
    show ?thesis by (simp add: c useFrame_resetting[OF m True sc] stopped_at_def m r)
  next
    case False
    show ?thesis using assms(1) by (simp add: c useFrame_idle[OF m False assms(2)])
  qed
  show "\<exists>s'. scale (snd (useFrame now delta c)) = Num s' \<and> toward_one s s'"
  proof (cases "isResetting sp")
    case True
    show ?thesis
      using lerp_toward_one[OF p, of s] by (simp add: c useFrame_resetting[OF m True sc] r)
  next
    case False
    show ?thesis by (simp add: c useFrame_idle[OF m False assms(2)] sc toward_one_refl)
  qed
  show "\<not> isResetting (snd (useFrame now delta c))" if "\<not> isResetting (snd c)"
    using that by (simp add: c useFrame_idle[OF m _ assms(2)])
qed

lemma stopped_run:
  assumes "stopped_at st t0 c" "\<not> isBreathing st" "scale (snd c) = Num s"
    and "\<forall>f \<in> set fs. t0 \<le> fst f"
  shows "stopped_at st t0 (run_frames fs c) \<and>
         (\<exists>s'. scale (snd (run_frames fs c)) = Num s' \<and> toward_one s s') \<and>
         (\<not> isResetting (snd c) \<longrightarrow> \<not> isResetting (snd (run_frames fs c)))"
  using assms(1,3,4)
proof (induction fs arbitrary: c s)
  case Nil
  then show ?case using toward_one_refl[of s] by simp
next
  case (Cons f fs)
  obtain now delta where f: "f = (now, delta)" by (cases f)
  have now: "t0 \<le> now" and rest: "\<forall>f \<in> set fs. t0 \<le> fst f"
    using Cons.prems(3) by (simp_all add: f)
  let ?c1 = "useFrame now delta c"
  note step = stopped_step[OF Cons.prems(1) assms(2) Cons.prems(2) now, of delta]
  from step(2) obtain s1 where s1: "scale (snd ?c1) = Num s1" "toward_one s s1" by blast
  from Cons.IH[OF step(1) s1(1) rest]
  obtain s' where ih: "stopped_at st t0 (run_frames fs ?c1)"
      "scale (snd (run_frames fs ?c1)) = Num s'" "toward_one s1 s'"
      "\<not> isResetting (snd ?c1) \<longrightarrow> \<not> isResetting (snd (run_frames fs ?c1))"
    by blast
  have run: "run_frames (f # fs) c = run_frames fs ?c1" by (simp add: f)
  have "toward_one s s'" by (rule toward_one_trans[OF s1(2) ih(3)])
  with ih step(3) show ?case unfolding run by blast
qed

lemma run_frames_append: "run_frames (fs @ gs) c = run_frames gs (run_frames fs c)"
  by (induction fs c rule: run_frames.induct) simp_all

lemma early_step_still_resetting:
  assumes "stopped_at st t0 c" "isResetting (snd c)" "scale (snd c) = Num s" "now < t0 + 500"
  shows "isResetting (snd (useFrame now delta c))"
proof -
  obtain sp where c: "c = (st, sp)" using assms(1) by (cases c) (simp add: stopped_at_def)
  have m: "mounted sp" and r: "resetStartTime sp = t0" and sc: "scale sp = Num s"
    and rs: "isResetting sp"
    using assms(1-3) by (simp_all add: c stopped_at_def)
  show ?thesis
    using assms(4) by (simp add: c useFrame_resetting[OF m rs sc] r reset_progress_done)
qed

lemma early_run_still_resetting:
  assumes "stopped_at st t0 c" "isResetting (snd c)" "\<not> isBreathing st" "scale (snd c) = Num s"
    and "\<forall>f \<in> set fs. t0 \<le> fst f \<and> fst f < t0 + 500"
  shows "isResetting (snd (run_frames fs c))"
  using assms(1,2,4,5)
proof (induction fs arbitrary: c s)
  case Nil
  then show ?case by simp
next
  case (Cons f fs)
  obtain now delta where f: "f = (now, delta)" by (cases f)
  have now: "t0 \<le> now" "now < t0 + 500"
    and rest: "\<forall>f \<in> set fs. t0 \<le> fst f \<and> fst f < t0 + 500"
    using Cons.prems(4) by (simp_all add: f)
  let ?c1 = "useFrame now delta c"
  note step = stopped_step[OF Cons.prems(1) assms(3) Cons.prems(3) now(1), of delta]
  from step(2) obtain s1 where s1: "scale (snd ?c1) = Num s1" by blast
  have r1: "isResetting (snd ?c1)"
    by (rule early_step_still_resetting[OF Cons.prems(1,2,3) now(2)])
  have "isResetting (snd (run_frames fs ?c1))"
    by (rule Cons.IH[OF step(1) r1 s1 rest])
  then show ?case by (simp add: f)
qed

lemma late_step_done:
  assumes "stopped_at st t0 c" "isResetting (snd c)" "scale (snd c) = Num s" "t0 + 500 \<le> now"
  shows "scale (snd (useFrame now delta c)) = Num 1 \<and> \<not> isResetting (snd (useFrame now delta c))"
proof -
  obtain sp where c: "c = (st, sp)" using assms(1) by (cases c) (simp add: stopped_at_def)
  have m: "mounted sp" and r: "resetStartTime sp = t0" and sc: "scale sp = Num s"
    and rs: "isResetting sp"
    using assms(1-3) by (simp_all add: c stopped_at_def)
  have "reset_progress t0 now = 1" using assms(4) by (simp add: reset_progress_done)
  then show ?thesis by (simp add: c useFrame_resetting[OF m rs sc] r)
qed

text \<open>
  C3. After a stop, with the sphere attached, the reset flag set and a finite scale \<open>s0\<close>:
  over any frames that come at or after the reset's start, the scale stays a number and
  each later value lies between 1 and every earlier one (it moves toward 1 and never past
  it). As long as all frames come before 0.5 s have passed the sphere is still resetting;
  the first frame at or after 0.5 s sets the scale to exactly 1 and ends the reset.
\<close>

theorem reset_decay:
  assumes "mounted sp" "isResetting sp" "\<not> isBreathing st" "scale sp = Num s0"
    and "\<forall>f \<in> set (fs1 @ fs2). resetStartTime sp \<le> fst f"
  shows "(\<exists>s1 s2. scale (snd (run_frames fs1 (st, sp))) = Num s1 \<and> toward_one s0 s1 \<and>
                  scale (snd (run_frames (fs1 @ fs2) (st, sp))) = Num s2 \<and> toward_one s1 s2)
       \<and> ((\<forall>f \<in> set fs1. fst f < resetStartTime sp + 500) \<longrightarrow>
            isResetting (snd (run_frames fs1 (st, sp))) \<and>
            (\<forall>now delta. resetStartTime sp + 500 \<le> now \<longrightarrow>
               scale (snd (run_frames (fs1 @ [(now, delta)]) (st, sp))) = Num 1 \<and>
               \<not> isResetting (snd (run_frames (fs1 @ [(now, delta)]) (st, sp)))))"
proof
  let ?t0 = "resetStartTime sp"
  let ?c = "(st, sp)"
  have st0: "stopped_at st ?t0 ?c" using assms(1) by (simp add: stopped_at_def)
  have sc0: "scale (snd ?c) = Num s0" using assms(4) by simp
  have f1: "\<forall>f \<in> set fs1. ?t0 \<le> fst f" and f2: "\<forall>f \<in> set fs2. ?t0 \<le> fst f"
    using assms(5) by simp_all
  from stopped_run[OF st0 assms(3) sc0 f1]
  obtain s1 where s1: "stopped_at st ?t0 (run_frames fs1 ?c)"
      "scale (snd (run_frames fs1 ?c)) = Num s1" "toward_one s0 s1" by blast
  from stopped_run[OF s1(1) assms(3) s1(2) f2]
  obtain s2 where s2: "scale (snd (run_frames fs2 (run_frames fs1 ?c))) = Num s2"
      "toward_one s1 s2" by blast
  show "\<exists>s1 s2. scale (snd (run_frames fs1 ?c)) = Num s1 \<and> toward_one s0 s1 \<and>
                  scale (snd (run_frames (fs1 @ fs2) ?c)) = Num s2 \<and> toward_one s1 s2"
    using s1(2,3) s2 unfolding run_frames_append by blast
  show "(\<forall>f \<in> set fs1. fst f < ?t0 + 500) \<longrightarrow>
            isResetting (snd (run_frames fs1 ?c)) \<and>
            (\<forall>now delta. ?t0 + 500 \<le> now \<longrightarrow>
               scale (snd (run_frames (fs1 @ [(now, delta)]) ?c)) = Num 1 \<and>
               \<not> isResetting (snd (run_frames (fs1 @ [(now, delta)]) ?c)))"
  proof
    assume early: "\<forall>f \<in> set fs1. fst f < ?t0 + 500"
    have rs0: "isResetting (snd ?c)" using assms(2) by simp
    have "\<forall>f \<in> set fs1. ?t0 \<le> fst f \<and> fst f < ?t0 + 500" using f1 early by blast
    from early_run_still_resetting[OF st0 rs0 assms(3) sc0 this]
    have r1: "isResetting (snd (run_frames fs1 ?c))" .
    have "scale (snd (run_frames (fs1 @ [(now, delta)]) ?c)) = Num 1 \<and>
          \<not> isResetting (snd (run_frames (fs1 @ [(now, delta)]) ?c))"
      if "?t0 + 500 \<le> now" for now delta
      using late_step_done[OF s1(1) r1 s1(2) that, of delta]
      by (simp add: run_frames_append)
    with r1 show "isResetting (snd (run_frames fs1 ?c)) \<and>
            (\<forall>now delta. ?t0 + 500 \<le> now \<longrightarrow>
               scale (snd (run_frames (fs1 @ [(now, delta)]) ?c)) = Num 1 \<and>
               \<not> isResetting (snd (run_frames (fs1 @ [(now, delta)]) ?c)))" by blast
  qed
qed

theorem reset_decay_witness:
  "isResetting (snd (run_frames [(20100, Num 0), (20300, Num 0)]
      (stopBreathing (startBreathing initial_store),
       onBreathingChange 20000 (stopBreathing (startBreathing initial_store))
         (mounted_sphere\<lparr> scale := Num (13 / 10) \<rparr>))))
   \<and> scale (snd (run_frames ([(20100, Num 0), (20300, Num 0)] @ [(20500, Num 0)])
      (stopBreathing (startBreathing initial_store),
       onBreathingChange 20000 (stopBreathing (startBreathing initial_store))
         (mounted_sphere\<lparr> scale := Num (13 / 10) \<rparr>)))) = Num 1
   \<and> \<not> isResetting (snd (run_frames ([(20100, Num 0), (20300, Num 0)] @ [(20500, Num 0)])
      (stopBreathing (startBreathing initial_store),
       onBreathingChange 20000 (stopBreathing (startBreathing initial_store))
         (mounted_sphere\<lparr> scale := Num (13 / 10) \<rparr>))))"
proof -
  let ?st = "stopBreathing (startBreathing initial_store)"
  let ?sp = "onBreathingChange 20000 ?st (mounted_sphere\<lparr> scale := Num (13 / 10) \<rparr>)"
  let ?fs = "[(20100, Num 0), (20300, Num 0)] :: (int \<times> jsnum) list"
  have h: "mounted ?sp" "isResetting ?sp" "\<not> isBreathing ?st" "scale ?sp = Num (13 / 10)"
    and rs: "resetStartTime ?sp = 20000"
    by (simp_all add: stopBreathing_def startBreathing_def onBreathingChange_def
        mounted_sphere_def initial_sphere_def)
  have after: "\<forall>f \<in> set (?fs @ []). resetStartTime ?sp \<le> fst f"
    by (simp add: rs)
  have early: "\<forall>f \<in> set ?fs. fst f < resetStartTime ?sp + 500"
    by (simp add: rs)
  have late: "resetStartTime ?sp + 500 \<le> 20500"
    by (simp add: rs)
  note rd = reset_decay[OF h after, THEN conjunct2, THEN mp, OF early]
  from rd[THEN conjunct1] rd[THEN conjunct2, rule_format, OF late, of "Num 0"]
  show ?thesis by blast
qed

section \<open>The store's phase label and running flag\<close>

lemmas store_defs =
  setBreathingPattern_def setTheme_def startBreathing_def stopBreathing_def
  setCurrentPhase_def setInhaleTime_def setHoldTime_def setExhaleTime_def setElapsedTime_def

lemma dispatch_in_step: "phase_inv s \<Longrightarrow> in_step a s \<Longrightarrow> phase_inv (dispatch a s)"
  by (cases a) (auto simp add: phase_inv_def store_defs)

lemma run_actions_in_step:
  "phase_inv s \<Longrightarrow> all_in_step as s \<Longrightarrow> phase_inv (run_actions as s)"
proof (induction as arbitrary: s)
  case Nil
  then show ?case by simp
next
  case (Cons a as)
  from Cons.prems have "phase_inv (dispatch a s)" "all_in_step as (dispatch a s)"
    by (simp_all add: dispatch_in_step)
  then show ?case using Cons.IH by simp
qed

text \<open>
  C4, as stated, fails: from the initial state (stopped, phase rest) a single
  \<open>setBreathingPattern\<close> gives a state that is stopped with phase inhale.
\<close>

theorem phase_inv_counterexample:
  "phase_inv initial_store
   \<and> \<not> isBreathing initial_store
   \<and> \<not> phase_inv (run_actions [SetBreathingPattern (Num 4) (Num 7) (Num 8)] initial_store)
   \<and> currentPhase (setBreathingPattern (Num 4) (Num 7) (Num 8) initial_store) = Inhale
   \<and> \<not> isBreathing (setBreathingPattern (Num 4) (Num 7) (Num 8) initial_store)"
  by (simp add: phase_inv_def initial_store_def setBreathingPattern_def)

text \<open>
  C4, amended. The phase is rest exactly when the session is stopped in the initial state
  and after every \<open>startBreathing\<close> and \<open>stopBreathing\<close>; the equivalence is kept by any run
  of actions in which \<open>setBreathingPattern\<close> is called only during a session and
  \<open>setCurrentPhase\<close> writes rest only when stopped and another phase only when running.
  \<open>setBreathingPattern\<close> called while stopped always leaves phase inhale with the session
  stopped.
\<close>

theorem phase_inv_amended:
  "phase_inv initial_store
   \<and> phase_inv (startBreathing s)
   \<and> phase_inv (stopBreathing s)
   \<and> (phase_inv s \<and> all_in_step as s \<longrightarrow> phase_inv (run_actions as s))
   \<and> (\<not> isBreathing s \<longrightarrow>
        currentPhase (setBreathingPattern i h e s) = Inhale
        \<and> \<not> isBreathing (setBreathingPattern i h e s)
        \<and> \<not> phase_inv (setBreathingPattern i h e s))"
  using run_actions_in_step[of s as]
  by (simp add: phase_inv_def initial_store_def store_defs)

theorem phase_inv_amended_witness:
  "phase_inv (run_actions
      [SetTheme \<lparr> primary = ''#6B7280'', secondary = ''#9CA3AF'', background = ''#F3F4F6'' \<rparr>,
       StartBreathing, SetCurrentPhase Hold, SetElapsedTime (Num 1), SetCurrentPhase Exhale,
       StopBreathing, SetElapsedTime (Num 0)]
      initial_store)"
proof -
  let ?as = "[SetTheme \<lparr> primary = ''#6B7280'', secondary = ''#9CA3AF'', background = ''#F3F4F6'' \<rparr>,
       StartBreathing, SetCurrentPhase Hold, SetElapsedTime (Num 1), SetCurrentPhase Exhale,
       StopBreathing, SetElapsedTime (Num 0)]"
  have init: "phase_inv initial_store"
    by (simp add: phase_inv_def initial_store_def)
  have steps: "all_in_step ?as initial_store"
    by (simp add: initial_store_def store_defs)
  from phase_inv_amended[of initial_store ?as, THEN conjunct2, THEN conjunct2,
      THEN conjunct2, THEN conjunct1, THEN mp, OF conjI, OF init steps]
  show ?thesis .
qed

section \<open>A cycle of length zero\<close>





section \<open>Reading the stored sessions\<close>

lemma handleStop_eq:
  "handleStop numstr uuid isoDate (storage, st) =
     (case (case storage of
              None \<Rightarrow> Inr (JArr [])
            | Some txt \<Rightarrow> if truthy txt then JSON_parse txt else Inr (JArr [])) of
        Inl err \<Rightarrow> Inl err
      | Inr sessions \<Rightarrow>
          (case array_receiver sessions of
             Inl err \<Rightarrow> Inl err
           | Inr elems \<Rightarrow>
               Inr (Some (JSON_stringify
                      (JArr (elems @ [session_value (new_session numstr uuid isoDate st)]))),
                    stopBreathing st)))"
  by (simp add: handleStop_def new_session_def Let_def split: option.split sum.split)

lemma array_receiver_other: "\<forall>xs. v \<noteq> JArr xs \<Longrightarrow> array_receiver v = Inl TypeError"
  by (cases v) simp_all

text \<open>
  C8, as stated, fails: with a text that is not JSON under the key, the effect of the
  statistics page does not yield the empty history; the \<open>SyntaxError\<close> of \<open>JSON.parse\<close>
  leaves it uncaught.
\<close>

theorem corrupted_blob_counterexample:
  "StatsPage_load (Some (Malformed ''{oops'')) (JArr []) = Inl SyntaxError
   \<and> StatsPage_load (Some (Malformed ''{oops'')) (JArr []) \<noteq> Inr (JArr [])"
  by (simp add: StatsPage_load_def)

text \<open>
  C8, amended. With the key missing or holding the empty string the read is treated as no
  sessions: the statistics page keeps its list (initially empty), and \<open>handleStop\<close> starts
  from the empty list, writes the one new session and stops the session. A non-empty text
  that is not JSON makes \<open>JSON.parse\<close> throw a \<open>SyntaxError\<close> that neither the statistics
  page nor \<open>handleStop\<close> catches; \<open>handleStop\<close> then writes nothing and does not stop the
  session. A JSON text is taken as parsed, unchecked: the page's list becomes the parsed
  value whatever it is; on an array \<open>handleStop\<close> appends the new session, writes the array
  back and stops; on a value that is not an array the page's render and the \<open>push\<close> of
  \<open>handleStop\<close> throw a \<open>TypeError\<close>, again uncaught.
\<close>

theorem corrupted_blob_amended:
  "StatsPage_load None sessions = Inr sessions
   \<and> StatsPage_load (Some (Malformed [])) sessions = Inr sessions
   \<and> handleStop numstr uuid isoDate (None, st)
       = Inr (Some (JSON_stringify (JArr [session_value (new_session numstr uuid isoDate st)])),
              stopBreathing st)
   \<and> handleStop numstr uuid isoDate (Some (Malformed []), st)
       = Inr (Some (JSON_stringify (JArr [session_value (new_session numstr uuid isoDate st)])),
              stopBreathing st)
   \<and> (txt \<noteq> [] \<longrightarrow>
        StatsPage_load (Some (Malformed txt)) sessions = Inl SyntaxError
        \<and> handleStop numstr uuid isoDate (Some (Malformed txt), st) = Inl SyntaxError)
   \<and> StatsPage_load (Some (Wellformed v)) sessions = Inr v
   \<and> handleStop numstr uuid isoDate (Some (Wellformed (JArr elems)), st)
       = Inr (Some (JSON_stringify
                (JArr (elems @ [session_value (new_session numstr uuid isoDate st)]))),
              stopBreathing st)
   \<and> ((\<forall>xs. v \<noteq> JArr xs) \<longrightarrow>
        StatsPage_totals v = Inl TypeError
        \<and> handleStop numstr uuid isoDate (Some (Wellformed v), st) = Inl TypeError)"
  using array_receiver_other[of v]
  by (simp add: StatsPage_load_def handleStop_eq StatsPage_totals_def)

theorem corrupted_blob_amended_witness:
  "StatsPage_load (Some (Malformed ''not json'')) (JArr []) = Inl SyntaxError
   \<and> StatsPage_totals (JObj []) = Inl TypeError"
proof -
  have ne: "''not json'' \<noteq> []" by simp
  have na: "\<forall>xs. JObj [] \<noteq> JArr xs" by simp
  note am = corrupted_blob_amended[of "JArr []" "\<lambda>n. []" "[]" "[]" initial_store
      "''not json''" "JObj []" "[]"]
  note c5 = am[THEN conjunct2, THEN conjunct2, THEN conjunct2, THEN conjunct2]
  from c5[THEN conjunct1, THEN mp, OF ne, THEN conjunct1]
    c5[THEN conjunct2, THEN conjunct2, THEN conjunct2, THEN mp, OF na, THEN conjunct1]
  show ?thesis by (rule conjI)
qed

section \<open>Stopping\<close>

text \<open>
  C9. \<open>stopBreathing\<close> clears the running flag and sets the phase to rest; the elapsed time,
  the three pattern times and the theme are as before. The elapsed time is cleared by the
  effect of the timer display, which runs with the session stopped, and that effect changes
  no other field.
\<close>

theorem stop_frame:
  "isBreathing (stopBreathing s) = False
   \<and> currentPhase (stopBreathing s) = Rest
   \<and> elapsedTime (stopBreathing s) = elapsedTime s
   \<and> inhaleTime (stopBreathing s) = inhaleTime s
   \<and> holdTime (stopBreathing s) = holdTime s
   \<and> exhaleTime (stopBreathing s) = exhaleTime s
   \<and> theme (stopBreathing s) = theme s
   \<and> stopBreathing s = s\<lparr> isBreathing := False, currentPhase := Rest \<rparr>
   \<and> timer_effect (stopBreathing s) = (stopBreathing s)\<lparr> elapsedTime := Num 0 \<rparr>"
  by (simp add: stopBreathing_def timer_effect_def setElapsedTime_def)

section \<open>Pattern names\<close>

lemma js_seq_Num_left: "js_seq (Num a) x = (x = Num a)"
  by (cases x) auto

text \<open>
  C10. For every triple of times the name the timer display shows is the name
  \<open>getPatternInfo\<close> of the statistics page returns: Calm for 4-4-6, Focus for 4-7-8, Balance
  for 4-4-4, Deep for 6-2-7, and otherwise the three numbers joined by hyphens.
\<close>

theorem pattern_names_agree:
  "patternText numstr i h e = info_name (getPatternInfo numstr i h e)
   \<and> patternText numstr i h e =
       (if (i, h, e) = (Num 4, Num 4, Num 6) then ''Calm''
        else if (i, h, e) = (Num 4, Num 7, Num 8) then ''Focus''
        else if (i, h, e) = (Num 4, Num 4, Num 4) then ''Balance''
        else if (i, h, e) = (Num 6, Num 2, Num 7) then ''Deep''
        else numstr i @ ''-'' @ numstr h @ ''-'' @ numstr e)"
  by (simp add: patternText_def getPatternInfo_def info_name_def TIMER_PATTERNS_def
      STATS_PATTERNS_def js_seq_Num_left triple_text_def)

end
